theory Spec2Isabelle
  imports Main
begin

section \<open>Python values, exceptions and the outside world\<close>

text \<open>
  The module \<^verbatim>\<open>nucypher/blockchain/eth/signers.py\<close> defines an abstract \<^verbatim>\<open>Signer\<close> and three
  backends: \<^verbatim>\<open>Web3Signer\<close> (host node), \<^verbatim>\<open>LocalSigner\<close> (local keyfile) and \<^verbatim>\<open>ClefSigner\<close>
  (external signing daemon). Every method is modelled as a function from the object's state
  to a result and the state after the call; a raised exception is the \<open>Inl\<close> result.
\<close>

type_synonym bytes = string

datatype pyval =
    PNone
  | PBool bool
  | PInt int
  | PStr string
  | PBytes bytes
  | PList "pyval list"
  | PDict "(string \<times> pyval) list"

type_synonym pydict = "(string \<times> pyval) list"

datatype pyerror =
    AccountLocked string
  | ValueError string
  | TypeError string
  | KeyError string
  | AttributeError string
  | FileNotFoundError string
  | NotImplementedError
  | OtherError string

text \<open>A call issued to the connected client of the host-node backend.\<close>

datatype client_call =
    UnlockAccountCall string string "int option"
  | LockAccountCall string
  | SignMessageCall string bytes
  | SignTransactionCall pydict

text \<open>
  An entry of the client's \<^verbatim>\<open>wallets\<close> list: \<^verbatim>\<open>w['url']\<close> and the \<^verbatim>\<open>'address'\<close> of every
  entry of \<^verbatim>\<open>w['accounts']\<close>.
\<close>

record wallet =
  wallet_url :: string
  wallet_accounts :: "string list"

text \<open>
  The connected client is an external object. \<open>wallets\<close> is \<open>None\<close> when the client has no
  attribute \<^verbatim>\<open>wallets\<close> (reading it raises AttributeError); \<open>respond\<close> is the client's answer to
  a call, which may depend on the calls made before.
\<close>

record client =
  wallets :: "wallet list option"
  respond :: "client_call list \<Rightarrow> client_call \<Rightarrow> pyerror + pyval"

text \<open>
  What the module imports from third-party libraries (eth_utils, hexbytes, web3) and the
  file system it reads, taken as parameters. \<open>factory_client\<close> is
  \<^verbatim>\<open>BlockchainInterfaceFactory.get_interface().client\<close>.
\<close>

record env =
  to_checksum_address :: "string \<Rightarrow> pyerror + string"
  to_normalized_address :: "pyval \<Rightarrow> pyerror + pyval"
  toHex :: "pyval \<Rightarrow> pyerror + pyval"
  HexBytes :: "pyval \<Rightarrow> pyerror + pyval"
  decrypt :: "string \<Rightarrow> string \<Rightarrow> pyerror + pyval"
  account_sign_transaction :: "pydict \<Rightarrow> pyval \<Rightarrow> pyerror + pyval"
  files :: "string \<rightharpoonup> string"
  factory_client :: "pyerror + client"

text \<open>
  Truth value of a function object: a Python function defines neither \<^verbatim>\<open>__bool__\<close> nor
  \<^verbatim>\<open>__len__\<close>, so \<^verbatim>\<open>if f:\<close> takes the true branch whatever \<^verbatim>\<open>f\<close> computes.
\<close>

definition function_truth :: "('a \<Rightarrow> 'b) \<Rightarrow> bool" where
  "function_truth f = True"

text \<open>Truth value of an optional string: \<^verbatim>\<open>None\<close> and the empty string are false.\<close>

definition str_truth :: "string option \<Rightarrow> bool" where
  "str_truth s = (case s of None \<Rightarrow> False | Some v \<Rightarrow> v \<noteq> [])"

text \<open>\<^verbatim>\<open>s.startswith(prefixes)\<close> for a tuple of prefixes.\<close>

definition startswith :: "string \<Rightarrow> string list \<Rightarrow> bool" where
  "startswith s prefixes = list_ex (\<lambda>p. take (length p) s = p) prefixes"

text \<open>A list comprehension whose element expression can raise: the first exception wins.\<close>

fun map_result :: "('a \<Rightarrow> pyerror + 'b) \<Rightarrow> 'a list \<Rightarrow> pyerror + 'b list" where
  "map_result f [] = Inr []"
| "map_result f (x # xs) =
     (case f x of
        Inl e \<Rightarrow> Inl e
      | Inr y \<Rightarrow> (case map_result f xs of Inl e \<Rightarrow> Inl e | Inr ys \<Rightarrow> Inr (y # ys)))"

text \<open>\<^verbatim>\<open>obj[key]\<close> and \<^verbatim>\<open>obj.name\<close> on a response object (web3 returns attribute dictionaries).\<close>

definition getitem :: "pyval \<Rightarrow> string \<Rightarrow> pyerror + pyval" where
  "getitem obj key =
     (case obj of
        PDict kvs \<Rightarrow> (case map_of kvs key of None \<Rightarrow> Inl (KeyError key) | Some v \<Rightarrow> Inr v)
      | _ \<Rightarrow> Inl (TypeError ''object is not subscriptable''))"

definition getattr :: "pyval \<Rightarrow> string \<Rightarrow> pyerror + pyval" where
  "getattr obj name =
     (case obj of
        PDict kvs \<Rightarrow> (case map_of kvs name of None \<Rightarrow> Inl (AttributeError name) | Some v \<Rightarrow> Inr v)
      | _ \<Rightarrow> Inl (AttributeError name))"

text \<open>\<^verbatim>\<open>repr\<close> of a string without quotes or escapes in it, and of a tuple of such strings.\<close>

definition repr_str :: "string \<Rightarrow> string" where
  "repr_str s = [CHR 0x27] @ s @ [CHR 0x27]"

fun join_comma :: "string list \<Rightarrow> string" where
  "join_comma [] = []"
| "join_comma [x] = x"
| "join_comma (x # y # ys) = x @ '', '' @ join_comma (y # ys)"

definition repr_tuple :: "string list \<Rightarrow> string" where
  "repr_tuple xs =
     (case xs of
        [x] \<Rightarrow> ''('' @ repr_str x @ '',)''
      | _ \<Rightarrow> ''('' @ join_comma (map repr_str xs) @ '')'')"

text \<open>
  \<^verbatim>\<open>eth_utils.apply_formatters_to_dict(formatters, value)\<close>: walks the items of \<^verbatim>\<open>value\<close> in
  order, replaces the item of a key that has a formatter by the formatter's result and keeps
  every other item; an exception of a formatter ends the walk (the library re-raises it with
  a message naming the field, a text that is not modelled).
\<close>

fun apply_formatters_to_dict ::
  "(string \<times> (pyval \<Rightarrow> pyerror + pyval)) list \<Rightarrow> pydict \<Rightarrow> pyerror + pydict" where
  "apply_formatters_to_dict formatters [] = Inr []"
| "apply_formatters_to_dict formatters ((key, item) # rest) =
     (case (case map_of formatters key of None \<Rightarrow> Inr item | Some f \<Rightarrow> f item) of
        Inl e \<Rightarrow> Inl e
      | Inr v \<Rightarrow>
          (case apply_formatters_to_dict formatters rest of
             Inl e \<Rightarrow> Inl e
           | Inr r \<Rightarrow> Inr ((key, v) # r)))"

text \<open>
  Modelled from the spec: \<^verbatim>\<open>BlockchainInterface.NULL_ADDRESS\<close>, a constant of
  \<^verbatim>\<open>nucypher/blockchain/eth/interfaces.py\<close>, which is not among the source files: the zero
  address, \<^verbatim>\<open>0x\<close> followed by forty zeros.
\<close>

definition NULL_ADDRESS :: string where
  "NULL_ADDRESS = ''0x'' @ replicate 40 (CHR ''0'')"

section \<open>Signer: the base class\<close>

text \<open>
  Inside a class body Python rewrites an attribute name with two leading underscores by
  prefixing the class name: \<^verbatim>\<open>self.__unlocked\<close> in \<^verbatim>\<open>Signer\<close> is the attribute
  \<^verbatim>\<open>_Signer__unlocked\<close>, in \<^verbatim>\<open>Web3Signer\<close> it is \<^verbatim>\<open>_Web3Signer__unlocked\<close>, in \<^verbatim>\<open>LocalSigner\<close>
  it is \<^verbatim>\<open>_LocalSigner__unlocked\<close>. Each is a field of its own below; a subclass's field is
  \<open>None\<close> until the attribute is first assigned. The logger is left out.
\<close>

record Signer =
  Signer__unlocked :: bool

definition Signer_init :: Signer where
  "Signer_init = \<lparr>Signer__unlocked = False\<rparr>"

definition is_unlocked :: "'a Signer_scheme \<Rightarrow> bool" where
  "is_unlocked self = Signer__unlocked self"

section \<open>Web3Signer: the host-node backend\<close>

text \<open>\<open>client_calls\<close> records the calls this signer has issued to its client, oldest first.\<close>

record Web3Signer = Signer +
  Web3Signer__client :: client
  Web3Signer__unlocked :: "pyval option"
  client_calls :: "client_call list"

definition Web3Signer_accounts :: "Web3Signer \<Rightarrow> (pyerror + pyval) \<times> Web3Signer" where
  "Web3Signer_accounts self = (Inr PNone, self)"

definition Web3Signer_init :: "env \<Rightarrow> client option \<Rightarrow> pyerror + Web3Signer" where
  "Web3Signer_init env client =
     (case (case client of None \<Rightarrow> factory_client env | Some c \<Rightarrow> Inr c) of
        Inl e \<Rightarrow> Inl e
      | Inr c \<Rightarrow>
          Inr \<lparr>Signer__unlocked = Signer__unlocked Signer_init,
               Web3Signer__client = c,
               Web3Signer__unlocked = None,
               client_calls = []\<rparr>)"

definition call_client :: "Web3Signer \<Rightarrow> client_call \<Rightarrow> (pyerror + pyval) \<times> Web3Signer" where
  "call_client self c =
     (respond (Web3Signer__client self) (client_calls self) c,
      self\<lparr>client_calls := client_calls self @ [c]\<rparr>)"

definition HW_WALLET_URL_PREFIXES :: "string list" where
  "HW_WALLET_URL_PREFIXES = [''trezor'', ''ledger'']"

text \<open>
  \<^verbatim>\<open>is_device\<close> is declared \<^verbatim>\<open>@staticmethod\<close> with the parameters \<^verbatim>\<open>(self, account)\<close>: the
  attribute \<^verbatim>\<open>self.is_device\<close> is the plain two-parameter function.
\<close>

definition is_device :: "env \<Rightarrow> Web3Signer \<Rightarrow> string \<Rightarrow> pyerror + bool" where
  "is_device env self account =
     (case wallets (Web3Signer__client self) of
        None \<Rightarrow> Inr False
      | Some ws \<Rightarrow>
          (let hw_accounts =
                 map wallet_accounts
                   (filter (\<lambda>w. startswith (wallet_url w) HW_WALLET_URL_PREFIXES) ws)
           in case map_result (to_checksum_address env) (concat hw_accounts) of
                Inl e \<Rightarrow> Inl e
              | Inr hw_addresses \<Rightarrow> Inr (account \<in> set hw_addresses)))"

text \<open>
  \<^verbatim>\<open>if self.is_device:\<close> tests the function object; the function is not called.
\<close>

definition Web3Signer_unlock_account ::
  "env \<Rightarrow> Web3Signer \<Rightarrow> string \<Rightarrow> string \<Rightarrow> int option \<Rightarrow> (pyerror + pyval) \<times> Web3Signer" where
  "Web3Signer_unlock_account env self account password duration =
     (if function_truth (is_device env) then
        (Inr (PBool True), self\<lparr>Web3Signer__unlocked := Some (PBool True)\<rparr>)
      else
        (case call_client self (UnlockAccountCall account password duration) of
           (Inl e, self') \<Rightarrow> (Inl e, self')
         | (Inr unlocked, self') \<Rightarrow>
             (Inr unlocked, self'\<lparr>Web3Signer__unlocked := Some unlocked\<rparr>)))"

definition Web3Signer_lock_account ::
  "env \<Rightarrow> Web3Signer \<Rightarrow> string \<Rightarrow> (pyerror + pyval) \<times> Web3Signer" where
  "Web3Signer_lock_account env self account =
     (if function_truth (is_device env) then
        (Inr (PBool False), self\<lparr>Web3Signer__unlocked := Some (PBool False)\<rparr>)
      else
        (case call_client self (LockAccountCall account) of
           (Inl e, self') \<Rightarrow> (Inl e, self')
         | (Inr _, self') \<Rightarrow>
             (Inr (PBool False), self'\<lparr>Web3Signer__unlocked := Some (PBool False)\<rparr>)))"

definition Web3Signer_sign_message ::
  "env \<Rightarrow> Web3Signer \<Rightarrow> string \<Rightarrow> bytes \<Rightarrow> (pyerror + pyval) \<times> Web3Signer" where
  "Web3Signer_sign_message env self account message =
     (if \<not> is_unlocked self then
        (Inl (AccountLocked (''Failed to unlock account '' @ account)), self)
      else
        (case call_client self (SignMessageCall account message) of
           (Inl e, self') \<Rightarrow> (Inl e, self')
         | (Inr signature, self') \<Rightarrow> (HexBytes env signature, self')))"

definition Web3Signer_sign_transaction ::
  "env \<Rightarrow> Web3Signer \<Rightarrow> string \<Rightarrow> pydict \<Rightarrow> (pyerror + pyval) \<times> Web3Signer" where
  "Web3Signer_sign_transaction env self account unsigned_transaction =
     (if \<not> is_unlocked self then
        (Inl (AccountLocked (''Failed to unlock account '' @ account)), self)
      else call_client self (SignTransactionCall unsigned_transaction))"

section \<open>LocalSigner: the local-keyfile backend\<close>

record LocalSigner = Signer +
  LocalSigner__key :: pyval
  LocalSigner__keyfile :: string
  LocalSigner__unlocked :: "pyval option"

definition LocalSigner_init :: "string \<Rightarrow> LocalSigner" where
  "LocalSigner_init keyfile =
     \<lparr>Signer__unlocked = Signer__unlocked Signer_init,
      LocalSigner__key = PNone,
      LocalSigner__keyfile = keyfile,
      LocalSigner__unlocked = None\<rparr>"

text \<open>
  \<^verbatim>\<open>__import_keyfile\<close>: \<^verbatim>\<open>open\<close> raises FileNotFoundError for a missing file; both
  \<^verbatim>\<open>except\<close> clauses re-raise what they caught; the key is stored on the \<^verbatim>\<open>else\<close> path only.
\<close>

definition import_keyfile :: "env \<Rightarrow> LocalSigner \<Rightarrow> string \<Rightarrow> (pyerror + pyval) \<times> LocalSigner" where
  "import_keyfile env self password =
     (case files env (LocalSigner__keyfile self) of
        None \<Rightarrow> (Inl (FileNotFoundError (LocalSigner__keyfile self)), self)
      | Some encrypted_key \<Rightarrow>
          (case decrypt env encrypted_key password of
             Inl e \<Rightarrow> (Inl e, self)
           | Inr private_key \<Rightarrow> (Inr (PBool True), self\<lparr>LocalSigner__key := private_key\<rparr>)))"

definition LocalSigner_accounts :: "LocalSigner \<Rightarrow> (pyerror + pyval) \<times> LocalSigner" where
  "LocalSigner_accounts self = (Inr PNone, self)"

definition LocalSigner_unlock_account ::
  "env \<Rightarrow> LocalSigner \<Rightarrow> string \<Rightarrow> string \<Rightarrow> int option \<Rightarrow> (pyerror + pyval) \<times> LocalSigner" where
  "LocalSigner_unlock_account env self account password duration =
     (case import_keyfile env self password of
        (Inl e, self') \<Rightarrow> (Inl e, self')
      | (Inr unlocked, self') \<Rightarrow>
          (Inr unlocked, self'\<lparr>LocalSigner__unlocked := Some unlocked\<rparr>))"

definition LocalSigner_lock_account ::
  "LocalSigner \<Rightarrow> string \<Rightarrow> (pyerror + pyval) \<times> LocalSigner" where
  "LocalSigner_lock_account self account =
     (Inr (PBool False),
      self\<lparr>LocalSigner__key := PNone, LocalSigner__unlocked := Some (PBool False)\<rparr>)"

definition LocalSigner_sign_transaction ::
  "env \<Rightarrow> LocalSigner \<Rightarrow> string \<Rightarrow> pydict \<Rightarrow> (pyerror + pyval) \<times> LocalSigner" where
  "LocalSigner_sign_transaction env self account unsigned_transaction =
     (if \<not> is_unlocked self then
        (Inl (AccountLocked (''Failed to unlock account '' @ account)), self)
      else
        (case account_sign_transaction env unsigned_transaction (LocalSigner__key self) of
           Inl e \<Rightarrow> (Inl e, self)
         | Inr signed_transaction \<Rightarrow> (getitem signed_transaction ''rawTransaction'', self)))"

text \<open>The body of \<^verbatim>\<open>sign_message\<close> is \<^verbatim>\<open>pass\<close>: the call returns \<^verbatim>\<open>None\<close>.\<close>

definition LocalSigner_sign_message ::
  "LocalSigner \<Rightarrow> string \<Rightarrow> bytes \<Rightarrow> (pyerror + pyval) \<times> LocalSigner" where
  "LocalSigner_sign_message self account message = (Inr PNone, self)"

section \<open>ClefSigner: the external-signer backend\<close>

text \<open>
  \<open>w3\<close> is the daemon behind \<^verbatim>\<open>self.w3.manager.request_blocking\<close>: its answer to a method and
  a parameter list, given the requests made before. \<open>requests\<close> records the requests this
  signer has sent, oldest first.
\<close>

record ClefSigner = Signer +
  w3 :: "(string \<times> pyval list) list \<Rightarrow> string \<Rightarrow> pyval list \<Rightarrow> pyerror + pyval"
  requests :: "(string \<times> pyval list) list"

definition SIGN_DATA_FOR_VALIDATOR :: string where
  "SIGN_DATA_FOR_VALIDATOR = ''data/validator''"

definition SIGN_DATA_FOR_CLIQUE :: string where
  "SIGN_DATA_FOR_CLIQUE = ''application/clique''"

definition SIGN_DATA_FOR_ECRECOVER :: string where
  "SIGN_DATA_FOR_ECRECOVER = ''text/plain''"

definition DEFAULT_CONTENT_TYPE :: string where
  "DEFAULT_CONTENT_TYPE = SIGN_DATA_FOR_ECRECOVER"

definition SIGN_DATA_CONTENT_TYPES :: "string list" where
  "SIGN_DATA_CONTENT_TYPES =
     [SIGN_DATA_FOR_VALIDATOR, SIGN_DATA_FOR_CLIQUE, SIGN_DATA_FOR_ECRECOVER]"

definition ClefSigner_init ::
  "((string \<times> pyval list) list \<Rightarrow> string \<Rightarrow> pyval list \<Rightarrow> pyerror + pyval) \<Rightarrow> ClefSigner" where
  "ClefSigner_init daemon =
     \<lparr>Signer__unlocked = Signer__unlocked Signer_init, w3 = daemon, requests = []\<rparr>"

definition request_blocking ::
  "ClefSigner \<Rightarrow> string \<Rightarrow> pyval list \<Rightarrow> (pyerror + pyval) \<times> ClefSigner" where
  "request_blocking self method params =
     (w3 self (requests self) method params,
      self\<lparr>requests := requests self @ [(method, params)]\<rparr>)"

definition is_connected :: "ClefSigner \<Rightarrow> bool" where
  "is_connected self = True"

definition to_str :: "pyval \<Rightarrow> pyerror + string" where
  "to_str v = (case v of PStr s \<Rightarrow> Inr s | _ \<Rightarrow> Inl (TypeError ''address is not a string''))"

definition ClefSigner_accounts :: "env \<Rightarrow> ClefSigner \<Rightarrow> (pyerror + pyval) \<times> ClefSigner" where
  "ClefSigner_accounts env self =
     (case request_blocking self ''account_list'' [] of
        (Inl e, self') \<Rightarrow> (Inl e, self')
      | (Inr (PList normalized_addresses), self') \<Rightarrow>
          (case map_result (\<lambda>addr. case to_str addr of
                                      Inl e \<Rightarrow> Inl e
                                    | Inr a \<Rightarrow> to_checksum_address env a)
                  normalized_addresses of
             Inl e \<Rightarrow> (Inl e, self')
           | Inr checksum_addresses \<Rightarrow> (Inr (PList (map PStr checksum_addresses)), self'))
      | (Inr _, self') \<Rightarrow> (Inl (TypeError ''account list is not iterable''), self'))"

definition formatters :: "env \<Rightarrow> (string \<times> (pyval \<Rightarrow> pyerror + pyval)) list" where
  "formatters env =
     [(''nonce'', toHex env),
      (''gasPrice'', toHex env),
      (''gas'', toHex env),
      (''value'', toHex env),
      (''chainId'', toHex env),
      (''from'', to_normalized_address env)]"

definition ClefSigner_sign_transaction ::
  "env \<Rightarrow> ClefSigner \<Rightarrow> string \<Rightarrow> pydict \<Rightarrow> (pyerror + pyval) \<times> ClefSigner" where
  "ClefSigner_sign_transaction env self account transaction =
     (case apply_formatters_to_dict (formatters env) transaction of
        Inl e \<Rightarrow> (Inl e, self)
      | Inr transaction' \<Rightarrow>
          (case request_blocking self ''account_signTransaction'' [PDict transaction'] of
             (Inl e, self') \<Rightarrow> (Inl e, self')
           | (Inr signed, self') \<Rightarrow>
               (case getattr signed ''raw'' of
                  Inl e \<Rightarrow> (Inl e, self')
                | Inr raw \<Rightarrow> (HexBytes env raw, self'))))"

text \<open>
  \<^verbatim>\<open>sign_message\<close>, first statement (the \<^verbatim>\<open>if not content_type / elif ... not in\<close> chain):
  the content type the rest of the method works with, or the ValueError.
\<close>

definition select_content_type :: "string option \<Rightarrow> pyerror + string" where
  "select_content_type content_type =
     (if \<not> str_truth content_type then Inr DEFAULT_CONTENT_TYPE
      else if the content_type \<notin> set SIGN_DATA_CONTENT_TYPES then
        Inl (ValueError (the content_type @ '' is not a valid content type. ''
                          @ ''Valid types are '' @ repr_tuple SIGN_DATA_CONTENT_TYPES))
      else Inr (the content_type))"

text \<open>
  \<^verbatim>\<open>sign_message\<close>, second statement (the \<^verbatim>\<open>if / elif / else\<close> on the content type): the data
  of the request, or the exception.
\<close>

definition shape_data :: "string \<Rightarrow> bytes \<Rightarrow> string option \<Rightarrow> pyerror + pyval" where
  "shape_data content_type message validator_address =
     (if content_type = SIGN_DATA_FOR_VALIDATOR then
        (if \<not> str_truth validator_address \<or> validator_address = Some NULL_ADDRESS then
           Inl (ValueError
                 ''When using the intended validator type, a validator address is required.'')
         else Inr (PList [PStr (the validator_address), PBytes message]))
      else if content_type = SIGN_DATA_FOR_ECRECOVER then Inr (PBytes message)
      else Inl NotImplementedError)"

definition ClefSigner_sign_message ::
  "ClefSigner \<Rightarrow> string \<Rightarrow> bytes \<Rightarrow> string option \<Rightarrow> string option
     \<Rightarrow> (pyerror + pyval) \<times> ClefSigner" where
  "ClefSigner_sign_message self account message content_type validator_address =
     (case select_content_type content_type of
        Inl e \<Rightarrow> (Inl e, self)
      | Inr content_type' \<Rightarrow>
          (case shape_data content_type' message validator_address of
             Inl e \<Rightarrow> (Inl e, self)
           | Inr data \<Rightarrow>
               request_blocking self ''account_signData''
                 [PStr content_type', PStr account, data]))"

definition ClefSigner_unlock_account ::
  "ClefSigner \<Rightarrow> string \<Rightarrow> string \<Rightarrow> int option \<Rightarrow> (pyerror + pyval) \<times> ClefSigner" where
  "ClefSigner_unlock_account self address password duration = (Inr (PBool True), self)"

definition ClefSigner_lock_account ::
  "ClefSigner \<Rightarrow> string \<Rightarrow> (pyerror + pyval) \<times> ClefSigner" where
  "ClefSigner_lock_account self address = (Inr (PBool True), self)"

section \<open>Sample collaborators for concrete runs\<close>

text \<open>
  A client that knows one ledger wallet and refuses every password, stand-ins for the
  library functions on the sample inputs, a file system with one keyfile whose password is
  \<^verbatim>\<open>secret\<close>, and a daemon that answers every request.
\<close>

definition example_client :: client where
  "example_client =
     \<lparr>wallets = Some [\<lparr>wallet_url = ''ledger://0001'', wallet_accounts = [''0xHardware'']\<rparr>],
      respond = (\<lambda>history call.
        case call of
          UnlockAccountCall a p d \<Rightarrow> Inr (PBool False)
        | LockAccountCall a \<Rightarrow> Inr (PBool True)
        | SignMessageCall a m \<Rightarrow> Inr (PBytes ''signature'')
        | SignTransactionCall t \<Rightarrow> Inr (PBytes ''signed''))\<rparr>"

text \<open>
  \<^verbatim>\<open>Web3.toHex\<close> on the sample values: an int gives its hexadecimal text; a \<^verbatim>\<open>str\<close> passed
  as the positional argument, as a formatter passes it, is refused with TypeError, a hex
  string included.
\<close>

definition example_toHex :: "pyval \<Rightarrow> pyerror + pyval" where
  "example_toHex v =
     (if v = PInt 5 then Inr (PStr ''0x5'')
      else if v = PInt 10 then Inr (PStr ''0xa'')
      else if v = PInt 21000 then Inr (PStr ''0x5208'')
      else if v = PInt 0 then Inr (PStr ''0x0'')
      else if v = PInt 1 then Inr (PStr ''0x1'')
      else Inl (TypeError ''Unsupported type''))"

text \<open>\<^verbatim>\<open>to_normalized_address\<close> on the sample sender: the address in lower case.\<close>

definition example_to_normalized_address :: "pyval \<Rightarrow> pyerror + pyval" where
  "example_to_normalized_address v =
     (if v = PStr ''0x5aAeb6053F3E94C9b9A09f33669435E7Ef1BeAed''
      then Inr (PStr ''0x5aaeb6053f3e94c9b9a09f33669435e7ef1beaed'')
      else Inl (ValueError ''Unknown format''))"

definition example_decrypt :: "string \<Rightarrow> string \<Rightarrow> pyerror + pyval" where
  "example_decrypt encrypted_key password =
     (if password = ''secret'' then Inr (PBytes ''private key'')
      else Inl (ValueError ''MAC mismatch''))"

definition example_account_sign_transaction :: "pydict \<Rightarrow> pyval \<Rightarrow> pyerror + pyval" where
  "example_account_sign_transaction transaction_dict private_key =
     (if private_key = PBytes ''private key''
      then Inr (PDict [(''rawTransaction'', PBytes ''signed locally'')])
      else Inl (TypeError ''no private key''))"

definition example_env :: env where
  "example_env =
     \<lparr>to_checksum_address = Inr,
      to_normalized_address = example_to_normalized_address,
      toHex = example_toHex,
      HexBytes = Inr,
      decrypt = example_decrypt,
      account_sign_transaction = example_account_sign_transaction,
      files = [''/keys/alice.json'' \<mapsto> ''encrypted keystore''],
      factory_client = Inl (OtherError ''no interface'')\<rparr>"

definition example_daemon ::
  "(string \<times> pyval list) list \<Rightarrow> string \<Rightarrow> pyval list \<Rightarrow> pyerror + pyval" where
  "example_daemon history method params =
     (if method = ''account_signTransaction'' then Inr (PDict [(''raw'', PBytes ''signed by clef'')])
      else Inr (PStr ''0xsignature''))"

definition example_web3signer :: Web3Signer where
  "example_web3signer =
     \<lparr>Signer__unlocked = False,
      Web3Signer__client = example_client,
      Web3Signer__unlocked = None,
      client_calls = []\<rparr>"

definition example_localsigner :: LocalSigner where
  "example_localsigner = LocalSigner_init ''/keys/alice.json''"

definition example_clefsigner :: ClefSigner where
  "example_clefsigner = ClefSigner_init example_daemon"

definition example_transaction :: pydict where
  "example_transaction =
     [(''nonce'', PInt 5),
      (''gasPrice'', PInt 10),
      (''gas'', PInt 21000),
      (''value'', PInt 0),
      (''chainId'', PInt 1),
      (''from'', PStr ''0x5aAeb6053F3E94C9b9A09f33669435E7Ef1BeAed''),
      (''to'', PStr ''0xfB6916095ca1df60bB79Ce92cE3Ea74c37c5d359'')]"

text \<open>The same transaction with the nonce given as a hex string.\<close>

definition example_transaction_hex :: pydict where
  "example_transaction_hex =
     [(''nonce'', PStr ''0x5''),
      (''gasPrice'', PInt 10),
      (''gas'', PInt 21000),
      (''value'', PInt 0),
      (''chainId'', PInt 1),
      (''from'', PStr ''0x5aAeb6053F3E94C9b9A09f33669435E7Ef1BeAed''),
      (''to'', PStr ''0xfB6916095ca1df60bB79Ce92cE3Ea74c37c5d359'')]"

section \<open>The lock state\<close>

text \<open>
  What \<^verbatim>\<open>unlock_account\<close> and \<^verbatim>\<open>lock_account\<close> of the host-node backend compute: the test
  of \<^verbatim>\<open>self.is_device\<close> always succeeds, so the client is never called.
\<close>

lemma Web3Signer_unlock_account_eq:
  "Web3Signer_unlock_account env self account password duration =
     (Inr (PBool True), self\<lparr>Web3Signer__unlocked := Some (PBool True)\<rparr>)"
  by (simp add: Web3Signer_unlock_account_def function_truth_def)

lemma Web3Signer_lock_account_eq:
  "Web3Signer_lock_account env self account =
     (Inr (PBool False), self\<lparr>Web3Signer__unlocked := Some (PBool False)\<rparr>)"
  by (simp add: Web3Signer_lock_account_def function_truth_def)

text \<open>
  No \<^verbatim>\<open>unlock_account\<close> and no \<^verbatim>\<open>lock_account\<close> writes the attribute that \<^verbatim>\<open>is_unlocked\<close>
  reads: the subclasses assign their own \<^verbatim>\<open>__unlocked\<close>, or nothing.
\<close>

lemma is_unlocked_Web3Signer_unlock_account:
  "is_unlocked (snd (Web3Signer_unlock_account env self account password duration))
     = is_unlocked self"
  by (simp add: Web3Signer_unlock_account_eq is_unlocked_def)

lemma is_unlocked_Web3Signer_lock_account:
  "is_unlocked (snd (Web3Signer_lock_account env self account)) = is_unlocked self"
  by (simp add: Web3Signer_lock_account_eq is_unlocked_def)

lemma is_unlocked_LocalSigner_unlock_account:
  "is_unlocked (snd (LocalSigner_unlock_account env self account password duration))
     = is_unlocked self"
  by (simp add: LocalSigner_unlock_account_def import_keyfile_def is_unlocked_def
      split: option.splits sum.splits)

lemma is_unlocked_LocalSigner_lock_account:
  "is_unlocked (snd (LocalSigner_lock_account self account)) = is_unlocked self"
  by (simp add: LocalSigner_lock_account_def is_unlocked_def)

lemma is_unlocked_ClefSigner_unlock_account:
  "is_unlocked (snd (ClefSigner_unlock_account self address password duration))
     = is_unlocked self"
  by (simp add: ClefSigner_unlock_account_def)

lemma is_unlocked_ClefSigner_lock_account:
  "is_unlocked (snd (ClefSigner_lock_account self address)) = is_unlocked self"
  by (simp add: ClefSigner_lock_account_def)

lemma Web3Signer_init_example:
  "Web3Signer_init example_env (Some example_client) = Inr example_web3signer"
  by (simp add: Web3Signer_init_def example_web3signer_def Signer_init_def)

text \<open>
  Claim C1: a successful \<^verbatim>\<open>unlock_account\<close> makes \<^verbatim>\<open>is_unlocked\<close> read true until the next
  \<^verbatim>\<open>lock_account\<close>. The code at a freshly constructed host-node signer and at a freshly
  constructed keyfile signer given the right password: \<^verbatim>\<open>unlock_account\<close> returns
  \<^verbatim>\<open>True\<close> and \<^verbatim>\<open>is_unlocked\<close> still reads false.
\<close>

theorem C1_unlock_leaves_is_unlocked_false:
  "fst (Web3Signer_unlock_account example_env example_web3signer ''0xAccount'' ''password'' None)
     = Inr (PBool True)
   \<and> is_unlocked (snd (Web3Signer_unlock_account example_env example_web3signer
                         ''0xAccount'' ''password'' None)) = False
   \<and> fst (LocalSigner_unlock_account example_env example_localsigner ''0xAccount'' ''secret'' None)
     = Inr (PBool True)
   \<and> is_unlocked (snd (LocalSigner_unlock_account example_env example_localsigner
                         ''0xAccount'' ''secret'' None)) = False"
  by (simp add: Web3Signer_unlock_account_def function_truth_def is_unlocked_def
      example_web3signer_def LocalSigner_unlock_account_def import_keyfile_def
      example_localsigner_def LocalSigner_init_def Signer_init_def example_env_def
      example_decrypt_def)

text \<open>
  Claim C3: the host-node \<^verbatim>\<open>unlock_account\<close> skips the client exactly for a hardware-wallet
  address and delegates for every other address. The code at an address that \<^verbatim>\<open>is_device\<close>
  does not recognise, on a client that would refuse the password: \<^verbatim>\<open>unlock_account\<close>
  returns \<^verbatim>\<open>True\<close> and no call reaches the client.
\<close>

theorem C3_unlock_never_delegates:
  "is_device example_env example_web3signer ''0xAccount'' = Inr False
   \<and> respond example_client [] (UnlockAccountCall ''0xAccount'' ''password'' None)
       = Inr (PBool False)
   \<and> Web3Signer_unlock_account example_env example_web3signer ''0xAccount'' ''password'' None
       = (Inr (PBool True), example_web3signer\<lparr>Web3Signer__unlocked := Some (PBool True)\<rparr>)
   \<and> client_calls (snd (Web3Signer_unlock_account example_env example_web3signer
                           ''0xAccount'' ''password'' None)) = []"
  by (simp add: is_device_def example_web3signer_def example_client_def startswith_def
      HW_WALLET_URL_PREFIXES_def example_env_def Web3Signer_unlock_account_def
      function_truth_def)

section \<open>Signing while locked\<close>

lemma ClefSigner_sign_message_flag:
  "fst (ClefSigner_sign_message (self\<lparr>Signer__unlocked := b\<rparr>) account message ct va)
     = fst (ClefSigner_sign_message self account message ct va)
   \<and> requests (snd (ClefSigner_sign_message (self\<lparr>Signer__unlocked := b\<rparr>) account message ct va))
     = requests (snd (ClefSigner_sign_message self account message ct va))"
  by (simp add: ClefSigner_sign_message_def request_blocking_def split: sum.splits)

lemma ClefSigner_sign_transaction_flag:
  "fst (ClefSigner_sign_transaction env (self\<lparr>Signer__unlocked := b\<rparr>) account tx)
     = fst (ClefSigner_sign_transaction env self account tx)
   \<and> requests (snd (ClefSigner_sign_transaction env (self\<lparr>Signer__unlocked := b\<rparr>) account tx))
     = requests (snd (ClefSigner_sign_transaction env self account tx))"
  by (simp add: ClefSigner_sign_transaction_def request_blocking_def split: sum.splits)

lemma select_content_type_None:
  "select_content_type None = Inr SIGN_DATA_FOR_ECRECOVER"
  by (simp add: select_content_type_def str_truth_def DEFAULT_CONTENT_TYPE_def)

lemma select_content_type_empty:
  "select_content_type (Some []) = Inr SIGN_DATA_FOR_ECRECOVER"
  by (simp add: select_content_type_def str_truth_def DEFAULT_CONTENT_TYPE_def)

lemma select_content_type_member:
  "ct \<in> set SIGN_DATA_CONTENT_TYPES \<Longrightarrow> select_content_type (Some ct) = Inr ct"
  by (auto simp add: select_content_type_def str_truth_def DEFAULT_CONTENT_TYPE_def
      SIGN_DATA_CONTENT_TYPES_def SIGN_DATA_FOR_VALIDATOR_def SIGN_DATA_FOR_CLIQUE_def
      SIGN_DATA_FOR_ECRECOVER_def)

lemma select_content_type_unknown:
  "ct \<noteq> [] \<Longrightarrow> ct \<notin> set SIGN_DATA_CONTENT_TYPES \<Longrightarrow>
     select_content_type (Some ct)
       = Inl (ValueError (ct @ '' is not a valid content type. '' @ ''Valid types are ''
                           @ repr_tuple SIGN_DATA_CONTENT_TYPES))"
  by (simp add: select_content_type_def str_truth_def)

lemma content_types_distinct:
  "SIGN_DATA_FOR_VALIDATOR \<noteq> SIGN_DATA_FOR_ECRECOVER"
  "SIGN_DATA_FOR_CLIQUE \<noteq> SIGN_DATA_FOR_VALIDATOR"
  "SIGN_DATA_FOR_CLIQUE \<noteq> SIGN_DATA_FOR_ECRECOVER"
  "SIGN_DATA_FOR_ECRECOVER \<noteq> SIGN_DATA_FOR_VALIDATOR"
  by (simp_all add: SIGN_DATA_FOR_VALIDATOR_def SIGN_DATA_FOR_CLIQUE_def
      SIGN_DATA_FOR_ECRECOVER_def)

lemma content_types_member:
  "SIGN_DATA_FOR_VALIDATOR \<in> set SIGN_DATA_CONTENT_TYPES"
  "SIGN_DATA_FOR_CLIQUE \<in> set SIGN_DATA_CONTENT_TYPES"
  "SIGN_DATA_FOR_ECRECOVER \<in> set SIGN_DATA_CONTENT_TYPES"
  by (simp_all add: SIGN_DATA_CONTENT_TYPES_def)

lemma NULL_ADDRESS_value:
  "NULL_ADDRESS = ''0x0000000000000000000000000000000000000000''"
  by (simp add: NULL_ADDRESS_def eval_nat_numeral)

lemma repr_tuple_SIGN_DATA_CONTENT_TYPES:
  "repr_tuple SIGN_DATA_CONTENT_TYPES
     = ''('' @ [CHR 0x27] @ ''data/validator'' @ [CHR 0x27] @ '', ''
         @ [CHR 0x27] @ ''application/clique'' @ [CHR 0x27] @ '', ''
         @ [CHR 0x27] @ ''text/plain'' @ [CHR 0x27] @ '')''"
  by (simp add: repr_tuple_def SIGN_DATA_CONTENT_TYPES_def repr_str_def
      SIGN_DATA_FOR_VALIDATOR_def SIGN_DATA_FOR_CLIQUE_def SIGN_DATA_FOR_ECRECOVER_def)

text \<open>
  Claim C2, as stated: on every backend, \<^verbatim>\<open>sign_transaction\<close> and \<^verbatim>\<open>sign_message\<close> fail with
  AccountLocked while \<^verbatim>\<open>is_unlocked\<close> is false, without a side effect. The external-signer
  backend, freshly constructed (\<^verbatim>\<open>is_unlocked\<close> false), signs a message: the request is
  sent and the daemon's answer returned.
\<close>

theorem C2_clef_signs_while_locked:
  "is_unlocked example_clefsigner = False
   \<and> ClefSigner_sign_message example_clefsigner ''0xAccount'' ''hello'' None None
       = (Inr (PStr ''0xsignature''),
          example_clefsigner\<lparr>requests :=
            [(''account_signData'', [PStr ''text/plain'', PStr ''0xAccount'', PBytes ''hello''])]\<rparr>)"
  by (simp add: is_unlocked_def example_clefsigner_def ClefSigner_init_def Signer_init_def
      ClefSigner_sign_message_def select_content_type_None shape_data_def
      SIGN_DATA_FOR_ECRECOVER_def SIGN_DATA_FOR_VALIDATOR_def request_blocking_def
      example_daemon_def)

text \<open>
  Claim C2, amended: while \<^verbatim>\<open>is_unlocked\<close> is false, \<^verbatim>\<open>sign_message\<close> and
  \<^verbatim>\<open>sign_transaction\<close> of the host-node backend and \<^verbatim>\<open>sign_transaction\<close> of the
  local-keyfile backend fail with AccountLocked, issue no call and leave the signer as it
  was. The external-signer backend never consults the flag: result and requests sent are
  the same whatever the flag holds. The local-keyfile \<^verbatim>\<open>sign_message\<close> returns \<^verbatim>\<open>None\<close>.
\<close>

theorem C2_locked_signing_fails:
  assumes "\<not> is_unlocked self" and "\<not> is_unlocked lself"
  shows "Web3Signer_sign_message env self account message
           = (Inl (AccountLocked (''Failed to unlock account '' @ account)), self)
       \<and> Web3Signer_sign_transaction env self account transaction
           = (Inl (AccountLocked (''Failed to unlock account '' @ account)), self)
       \<and> LocalSigner_sign_transaction env lself account transaction
           = (Inl (AccountLocked (''Failed to unlock account '' @ account)), lself)
       \<and> LocalSigner_sign_message lself account message = (Inr PNone, lself)
       \<and> fst (ClefSigner_sign_message (cself\<lparr>Signer__unlocked := b\<rparr>) account message ct va)
           = fst (ClefSigner_sign_message cself account message ct va)
       \<and> requests (snd (ClefSigner_sign_message (cself\<lparr>Signer__unlocked := b\<rparr>)
                          account message ct va))
           = requests (snd (ClefSigner_sign_message cself account message ct va))
       \<and> fst (ClefSigner_sign_transaction env (cself\<lparr>Signer__unlocked := b\<rparr>) account transaction)
           = fst (ClefSigner_sign_transaction env cself account transaction)
       \<and> requests (snd (ClefSigner_sign_transaction env (cself\<lparr>Signer__unlocked := b\<rparr>)
                          account transaction))
           = requests (snd (ClefSigner_sign_transaction env cself account transaction))"
  using assms
  by (simp add: Web3Signer_sign_message_def Web3Signer_sign_transaction_def
      LocalSigner_sign_transaction_def LocalSigner_sign_message_def
      ClefSigner_sign_message_flag ClefSigner_sign_transaction_flag)

theorem C2_locked_signing_fails_witness:
  "\<not> is_unlocked example_web3signer \<and> \<not> is_unlocked example_localsigner
   \<and> Web3Signer_sign_message example_env example_web3signer ''0xAccount'' ''hello''
       = (Inl (AccountLocked ''Failed to unlock account 0xAccount''), example_web3signer)
   \<and> Web3Signer_sign_transaction example_env example_web3signer ''0xAccount'' example_transaction
       = (Inl (AccountLocked ''Failed to unlock account 0xAccount''), example_web3signer)
   \<and> LocalSigner_sign_transaction example_env example_localsigner ''0xAccount'' example_transaction
       = (Inl (AccountLocked ''Failed to unlock account 0xAccount''), example_localsigner)"
proof -
  have w: "\<not> is_unlocked example_web3signer"
    by (simp add: is_unlocked_def example_web3signer_def)
  have l: "\<not> is_unlocked example_localsigner"
    by (simp add: is_unlocked_def example_localsigner_def LocalSigner_init_def Signer_init_def)
  show ?thesis
    using w l C2_locked_signing_fails [OF w l, where env = example_env
        and account = "''0xAccount''" and message = "''hello''"
        and transaction = example_transaction]
    by simp
qed

section \<open>Locking\<close>

text \<open>
  Claim C4, as stated: on every backend \<^verbatim>\<open>lock_account\<close> returns the boolean false. The
  external-signer backend returns \<^verbatim>\<open>True\<close>.
\<close>

theorem C4_clef_lock_returns_true:
  "ClefSigner_lock_account example_clefsigner ''0xAccount''
     = (Inr (PBool True), example_clefsigner)"
  by (simp add: ClefSigner_lock_account_def)

text \<open>
  Claim C4, amended: \<^verbatim>\<open>lock_account\<close> never fails on any backend and any address; it returns
  \<^verbatim>\<open>False\<close> on the host-node and the local-keyfile backend (where the key is dropped as
  well) and \<^verbatim>\<open>True\<close>, with nothing changed, on the external-signer backend.
\<close>

theorem C4_lock_account_results:
  "Web3Signer_lock_account env self account
     = (Inr (PBool False), self\<lparr>Web3Signer__unlocked := Some (PBool False)\<rparr>)
   \<and> LocalSigner_lock_account lself account
     = (Inr (PBool False),
        lself\<lparr>LocalSigner__key := PNone, LocalSigner__unlocked := Some (PBool False)\<rparr>)
   \<and> ClefSigner_lock_account cself account = (Inr (PBool True), cself)"
  by (simp add: Web3Signer_lock_account_eq LocalSigner_lock_account_def
      ClefSigner_lock_account_def)

theorem C4_lock_account_results_witness:
  "fst (Web3Signer_lock_account example_env example_web3signer ''0xAccount'') = Inr (PBool False)
   \<and> client_calls (snd (Web3Signer_lock_account example_env example_web3signer ''0xAccount'')) = []
   \<and> fst (LocalSigner_lock_account example_localsigner ''0xAccount'') = Inr (PBool False)
   \<and> fst (ClefSigner_lock_account example_clefsigner ''0xAccount'') = Inr (PBool True)"
  using C4_lock_account_results [of example_env example_web3signer "''0xAccount''"
      example_localsigner example_clefsigner]
  by (simp add: example_web3signer_def)

section \<open>The external signer: transactions\<close>

lemma map_of_formatters:
  "map_of (formatters env) k =
     (if k \<in> {''nonce'', ''gasPrice'', ''gas'', ''value'', ''chainId''} then Some (toHex env)
      else if k = ''from'' then Some (to_normalized_address env)
      else None)"
  by (simp add: formatters_def)

lemma apply_formatters_to_dict_items:
  "apply_formatters_to_dict fs tx = Inr out \<Longrightarrow>
     list_all2 (\<lambda>(k, v) (k', v'). k' = k \<and>
                  (case map_of fs k of None \<Rightarrow> v' = v | Some f \<Rightarrow> f v = Inr v')) tx out"
proof (induction tx arbitrary: out)
  case Nil
  then show ?case by simp
next
  case (Cons kv tx)
  obtain k v where kv: "kv = (k, v)" by (cases kv)
  from Cons.prems kv obtain v' r where
    head: "(case map_of fs k of None \<Rightarrow> Inr v | Some f \<Rightarrow> f v) = Inr v'"
    and tail: "apply_formatters_to_dict fs tx = Inr r"
    and out: "out = (k, v') # r"
    by (auto split: sum.splits)
  from head have "case map_of fs k of None \<Rightarrow> v' = v | Some f \<Rightarrow> f v = Inr v'"
    by (auto split: option.splits)
  with Cons.IH [OF tail] kv out show ?case by simp
qed

lemma apply_formatters_to_dict_succeeds:
  "list_all (\<lambda>(k, v). case map_of fs k of None \<Rightarrow> True | Some f \<Rightarrow> (\<exists>v'. f v = Inr v')) tx
     \<Longrightarrow> \<exists>out. apply_formatters_to_dict fs tx = Inr out"
proof (induction tx)
  case Nil
  then show ?case by simp
next
  case (Cons kv tx)
  obtain k v where kv: "kv = (k, v)" by (cases kv)
  from Cons.prems kv obtain v' where
    head: "(case map_of fs k of None \<Rightarrow> Inr v | Some f \<Rightarrow> f v) = Inr v'"
    by (auto split: option.splits)
  from Cons.prems Cons.IH obtain r where "apply_formatters_to_dict fs tx = Inr r"
    by auto
  with head kv show ?case by simp
qed

lemma apply_formatters_to_dict_fails:
  "\<not> list_all (\<lambda>(k, v). case map_of fs k of None \<Rightarrow> True | Some f \<Rightarrow> (\<exists>v'. f v = Inr v')) tx
     \<Longrightarrow> \<exists>e. apply_formatters_to_dict fs tx = Inl e"
proof (induction tx)
  case Nil
  then show ?case by simp
next
  case (Cons kv tx)
  obtain k v where kv: "kv = (k, v)" by (cases kv)
  show ?case
  proof (cases "case map_of fs k of None \<Rightarrow> Inr v | Some f \<Rightarrow> f v")
    case (Inl e)
    with kv show ?thesis by simp
  next
    case (Inr v')
    then have "case map_of fs k of None \<Rightarrow> True | Some f \<Rightarrow> (\<exists>v'. f v = Inr v')"
      by (auto split: option.splits)
    with Cons.prems kv have "\<not> list_all
        (\<lambda>(k, v). case map_of fs k of None \<Rightarrow> True | Some f \<Rightarrow> (\<exists>v'. f v = Inr v')) tx"
      by simp
    from Cons.IH [OF this] obtain e where "apply_formatters_to_dict fs tx = Inl e" ..
    with Inr kv show ?thesis by simp
  qed
qed

lemma formatters_accept:
  "list_all (\<lambda>(k, v). case map_of (formatters env) k of
               None \<Rightarrow> True | Some f \<Rightarrow> (\<exists>v'. f v = Inr v')) transaction
   = list_all (\<lambda>(k, v).
       (k \<in> {''nonce'', ''gasPrice'', ''gas'', ''value'', ''chainId''}
          \<longrightarrow> (\<exists>h. toHex env v = Inr h))
       \<and> (k = ''from'' \<longrightarrow> (\<exists>a. to_normalized_address env v = Inr a))) transaction"
  unfolding list_all_iff map_of_formatters by (auto split: if_splits)

lemma ClefSigner_sign_transaction_formatted:
  "apply_formatters_to_dict (formatters env) transaction = Inr formatted \<Longrightarrow>
     ClefSigner_sign_transaction env self account transaction
       = (case w3 self (requests self) ''account_signTransaction'' [PDict formatted] of
            Inl e \<Rightarrow> Inl e
          | Inr signed \<Rightarrow>
              (case getattr signed ''raw'' of Inl e \<Rightarrow> Inl e | Inr raw \<Rightarrow> HexBytes env raw),
          self\<lparr>requests := requests self @ [(''account_signTransaction'', [PDict formatted])]\<rparr>)"
  by (simp add: ClefSigner_sign_transaction_def request_blocking_def split: sum.splits)

lemma ClefSigner_sign_transaction_refused:
  "apply_formatters_to_dict (formatters env) transaction = Inl e \<Longrightarrow>
     ClefSigner_sign_transaction env self account transaction = (Inl e, self)"
  by (simp add: ClefSigner_sign_transaction_def)

lemma example_transaction_formatted:
  "ClefSigner_sign_transaction example_env example_clefsigner ''0xAccount'' example_transaction
     = (Inr (PBytes ''signed by clef''),
        example_clefsigner\<lparr>requests :=
          [(''account_signTransaction'',
            [PDict [(''nonce'', PStr ''0x5''),
                    (''gasPrice'', PStr ''0xa''),
                    (''gas'', PStr ''0x5208''),
                    (''value'', PStr ''0x0''),
                    (''chainId'', PStr ''0x1''),
                    (''from'', PStr ''0x5aaeb6053f3e94c9b9a09f33669435e7ef1beaed''),
                    (''to'', PStr ''0xfB6916095ca1df60bB79Ce92cE3Ea74c37c5d359'')]])]\<rparr>)"
  by (simp add: ClefSigner_sign_transaction_def example_transaction_def formatters_def
      example_env_def example_toHex_def example_to_normalized_address_def request_blocking_def
      example_clefsigner_def ClefSigner_init_def example_daemon_def getattr_def)

text \<open>
  Claim C5, as stated: \<^verbatim>\<open>sign_transaction\<close> of the external-signer backend converts the
  numeric fields to hex strings whether the input holds an int or a hex string, and sends
  the formatted transaction. With the nonce given as the hex string \<^verbatim>\<open>0x5\<close>, the formatter
  \<^verbatim>\<open>Web3.toHex\<close> refuses the \<^verbatim>\<open>str\<close>: the call fails with TypeError and no request is sent.
\<close>

theorem C5_hex_string_nonce_refused:
  "toHex example_env (PStr ''0x5'') = Inl (TypeError ''Unsupported type'')
   \<and> ClefSigner_sign_transaction example_env example_clefsigner ''0xAccount''
        example_transaction_hex
     = (Inl (TypeError ''Unsupported type''), example_clefsigner)
   \<and> requests (snd (ClefSigner_sign_transaction example_env example_clefsigner ''0xAccount''
                       example_transaction_hex)) = []"
  by (simp add: ClefSigner_sign_transaction_def example_transaction_hex_def formatters_def
      example_env_def example_toHex_def example_clefsigner_def ClefSigner_init_def)

text \<open>
  Claim C5, amended: \<^verbatim>\<open>sign_transaction\<close> of the external-signer backend formats the
  transaction before sending. When \<^verbatim>\<open>Web3.toHex\<close> accepts the value of every field among
  \<^verbatim>\<open>nonce\<close>, \<^verbatim>\<open>gasPrice\<close>, \<^verbatim>\<open>gas\<close>, \<^verbatim>\<open>value\<close> and \<^verbatim>\<open>chainId\<close> that is present and
  \<^verbatim>\<open>to_normalized_address\<close> accepts the value of \<^verbatim>\<open>from\<close>, exactly one request is sent,
  \<^verbatim>\<open>account_signTransaction\<close>, with a transaction that has the input's keys in the input's
  order, the value of each of those numeric fields replaced by \<^verbatim>\<open>Web3.toHex\<close> of it, the
  value of \<^verbatim>\<open>from\<close> replaced by \<^verbatim>\<open>to_normalized_address\<close> of it and every other value kept;
  the result is made from the daemon's answer. When a formatter refuses a value, the call
  fails with an error, sends no request and leaves the signer as it was.
\<close>

theorem C5_sign_transaction_formats_fields:
  "(list_all (\<lambda>(k, v).
       (k \<in> {''nonce'', ''gasPrice'', ''gas'', ''value'', ''chainId''}
          \<longrightarrow> (\<exists>h. toHex env v = Inr h))
       \<and> (k = ''from'' \<longrightarrow> (\<exists>a. to_normalized_address env v = Inr a))) transaction
    \<longrightarrow> (\<exists>formatted.
           list_all2 (\<lambda>(k, v) (k', v'). k' = k \<and>
               (if k \<in> {''nonce'', ''gasPrice'', ''gas'', ''value'', ''chainId''}
                then toHex env v = Inr v'
                else if k = ''from'' then to_normalized_address env v = Inr v'
                else v' = v)) transaction formatted
         \<and> ClefSigner_sign_transaction env self account transaction
             = (case w3 self (requests self) ''account_signTransaction'' [PDict formatted] of
                  Inl e \<Rightarrow> Inl e
                | Inr signed \<Rightarrow>
                    (case getattr signed ''raw'' of
                       Inl e \<Rightarrow> Inl e
                     | Inr raw \<Rightarrow> HexBytes env raw),
                self\<lparr>requests := requests self @
                  [(''account_signTransaction'', [PDict formatted])]\<rparr>)))
   \<and> (\<not> list_all (\<lambda>(k, v).
       (k \<in> {''nonce'', ''gasPrice'', ''gas'', ''value'', ''chainId''}
          \<longrightarrow> (\<exists>h. toHex env v = Inr h))
       \<and> (k = ''from'' \<longrightarrow> (\<exists>a. to_normalized_address env v = Inr a))) transaction
    \<longrightarrow> (\<exists>e. ClefSigner_sign_transaction env self account transaction = (Inl e, self)))"
proof (intro conjI impI)
  assume "list_all (\<lambda>(k, v).
       (k \<in> {''nonce'', ''gasPrice'', ''gas'', ''value'', ''chainId''}
          \<longrightarrow> (\<exists>h. toHex env v = Inr h))
       \<and> (k = ''from'' \<longrightarrow> (\<exists>a. to_normalized_address env v = Inr a))) transaction"
  then have "list_all (\<lambda>(k, v). case map_of (formatters env) k of
                     None \<Rightarrow> True | Some f \<Rightarrow> (\<exists>v'. f v = Inr v')) transaction"
    unfolding formatters_accept .
  then obtain formatted where
    f: "apply_formatters_to_dict (formatters env) transaction = Inr formatted"
    using apply_formatters_to_dict_succeeds by blast
  have "list_all2 (\<lambda>(k, v) (k', v'). k' = k \<and>
               (if k \<in> {''nonce'', ''gasPrice'', ''gas'', ''value'', ''chainId''}
                then toHex env v = Inr v'
                else if k = ''from'' then to_normalized_address env v = Inr v'
                else v' = v)) transaction formatted"
    using apply_formatters_to_dict_items [OF f] unfolding map_of_formatters
    by (rule list_all2_mono) (auto split: if_splits)
  with ClefSigner_sign_transaction_formatted [OF f, of self account]
  show "\<exists>formatted.
           list_all2 (\<lambda>(k, v) (k', v'). k' = k \<and>
               (if k \<in> {''nonce'', ''gasPrice'', ''gas'', ''value'', ''chainId''}
                then toHex env v = Inr v'
                else if k = ''from'' then to_normalized_address env v = Inr v'
                else v' = v)) transaction formatted
         \<and> ClefSigner_sign_transaction env self account transaction
             = (case w3 self (requests self) ''account_signTransaction'' [PDict formatted] of
                  Inl e \<Rightarrow> Inl e
                | Inr signed \<Rightarrow>
                    (case getattr signed ''raw'' of
                       Inl e \<Rightarrow> Inl e
                     | Inr raw \<Rightarrow> HexBytes env raw),
                self\<lparr>requests := requests self @
                  [(''account_signTransaction'', [PDict formatted])]\<rparr>)"
    by blast
next
  assume "\<not> list_all (\<lambda>(k, v).
       (k \<in> {''nonce'', ''gasPrice'', ''gas'', ''value'', ''chainId''}
          \<longrightarrow> (\<exists>h. toHex env v = Inr h))
       \<and> (k = ''from'' \<longrightarrow> (\<exists>a. to_normalized_address env v = Inr a))) transaction"
  then have "\<not> list_all (\<lambda>(k, v). case map_of (formatters env) k of
                     None \<Rightarrow> True | Some f \<Rightarrow> (\<exists>v'. f v = Inr v')) transaction"
    unfolding formatters_accept .
  then obtain e where "apply_formatters_to_dict (formatters env) transaction = Inl e"
    using apply_formatters_to_dict_fails by blast
  then show "\<exists>e. ClefSigner_sign_transaction env self account transaction = (Inl e, self)"
    using ClefSigner_sign_transaction_refused by blast
qed

theorem C5_sign_transaction_formats_fields_witness:
  "list_all (\<lambda>(k, v).
       (k \<in> {''nonce'', ''gasPrice'', ''gas'', ''value'', ''chainId''}
          \<longrightarrow> (\<exists>h. toHex example_env v = Inr h))
       \<and> (k = ''from'' \<longrightarrow> (\<exists>a. to_normalized_address example_env v = Inr a)))
     example_transaction
   \<and> (\<exists>formatted.
         list_all2 (\<lambda>(k, v) (k', v'). k' = k \<and>
             (if k \<in> {''nonce'', ''gasPrice'', ''gas'', ''value'', ''chainId''}
              then toHex example_env v = Inr v'
              else if k = ''from'' then to_normalized_address example_env v = Inr v'
              else v' = v)) example_transaction formatted
       \<and> requests (snd (ClefSigner_sign_transaction example_env example_clefsigner
                          ''0xAccount'' example_transaction))
           = requests example_clefsigner @ [(''account_signTransaction'', [PDict formatted])])
   \<and> \<not> list_all (\<lambda>(k, v).
       (k \<in> {''nonce'', ''gasPrice'', ''gas'', ''value'', ''chainId''}
          \<longrightarrow> (\<exists>h. toHex example_env v = Inr h))
       \<and> (k = ''from'' \<longrightarrow> (\<exists>a. to_normalized_address example_env v = Inr a)))
     example_transaction_hex
   \<and> (\<exists>e. ClefSigner_sign_transaction example_env example_clefsigner ''0xAccount''
              example_transaction_hex = (Inl e, example_clefsigner))"
proof -
  have h: "list_all (\<lambda>(k, v).
       (k \<in> {''nonce'', ''gasPrice'', ''gas'', ''value'', ''chainId''}
          \<longrightarrow> (\<exists>h. toHex example_env v = Inr h))
       \<and> (k = ''from'' \<longrightarrow> (\<exists>a. to_normalized_address example_env v = Inr a)))
     example_transaction"
    by (simp add: example_transaction_def example_env_def example_toHex_def
        example_to_normalized_address_def)
  have n: "\<not> list_all (\<lambda>(k, v).
       (k \<in> {''nonce'', ''gasPrice'', ''gas'', ''value'', ''chainId''}
          \<longrightarrow> (\<exists>h. toHex example_env v = Inr h))
       \<and> (k = ''from'' \<longrightarrow> (\<exists>a. to_normalized_address example_env v = Inr a)))
     example_transaction_hex"
    by (simp add: example_transaction_hex_def example_env_def example_toHex_def)
  from h C5_sign_transaction_formats_fields [where env = example_env
      and transaction = example_transaction and self = example_clefsigner
      and account = "''0xAccount''"]
  obtain formatted where
    "list_all2 (\<lambda>(k, v) (k', v'). k' = k \<and>
             (if k \<in> {''nonce'', ''gasPrice'', ''gas'', ''value'', ''chainId''}
              then toHex example_env v = Inr v'
              else if k = ''from'' then to_normalized_address example_env v = Inr v'
              else v' = v)) example_transaction formatted"
    and "ClefSigner_sign_transaction example_env example_clefsigner ''0xAccount''
           example_transaction
         = (case w3 example_clefsigner (requests example_clefsigner) ''account_signTransaction''
                   [PDict formatted] of
              Inl e \<Rightarrow> Inl e
            | Inr signed \<Rightarrow>
                (case getattr signed ''raw'' of
                   Inl e \<Rightarrow> Inl e
                 | Inr raw \<Rightarrow> HexBytes example_env raw),
            example_clefsigner\<lparr>requests := requests example_clefsigner @
              [(''account_signTransaction'', [PDict formatted])]\<rparr>)"
    by blast
  then have a: "\<exists>formatted.
         list_all2 (\<lambda>(k, v) (k', v'). k' = k \<and>
             (if k \<in> {''nonce'', ''gasPrice'', ''gas'', ''value'', ''chainId''}
              then toHex example_env v = Inr v'
              else if k = ''from'' then to_normalized_address example_env v = Inr v'
              else v' = v)) example_transaction formatted
       \<and> requests (snd (ClefSigner_sign_transaction example_env example_clefsigner
                          ''0xAccount'' example_transaction))
           = requests example_clefsigner @ [(''account_signTransaction'', [PDict formatted])]"
    by auto
  from n C5_sign_transaction_formats_fields [where env = example_env
      and transaction = example_transaction_hex and self = example_clefsigner
      and account = "''0xAccount''"]
  have b: "\<exists>e. ClefSigner_sign_transaction example_env example_clefsigner ''0xAccount''
              example_transaction_hex = (Inl e, example_clefsigner)"
    by blast
  from h a n b show ?thesis by blast
qed

section \<open>The external signer: messages\<close>

text \<open>
  Claim C6, as stated: with the validator content type, every non-null, non-zero
  \<^verbatim>\<open>validator_address\<close> gets the request sent. The empty string is neither null nor the zero
  address, and is refused: \<^verbatim>\<open>not validator_address\<close> is true of it.
\<close>

theorem C6_empty_validator_address_rejected:
  "[] \<noteq> NULL_ADDRESS
   \<and> ClefSigner_sign_message example_clefsigner ''0xAccount'' ''hello''
        (Some ''data/validator'') (Some [])
       = (Inl (ValueError
                ''When using the intended validator type, a validator address is required.''),
          example_clefsigner)"
  by (simp add: NULL_ADDRESS_def ClefSigner_sign_message_def
      select_content_type_member [OF content_types_member(1), unfolded SIGN_DATA_FOR_VALIDATOR_def]
      shape_data_def SIGN_DATA_FOR_VALIDATOR_def str_truth_def)

text \<open>
  Claim C6, amended: with the validator content type, \<^verbatim>\<open>sign_message\<close> fails with
  ValueError, sending nothing, when \<^verbatim>\<open>validator_address\<close> is \<^verbatim>\<open>None\<close>, empty or the zero
  address; with any other \<^verbatim>\<open>validator_address\<close> it sends one \<^verbatim>\<open>account_signData\<close> request
  whose data is the pair of the validator address and the message, and returns the daemon's
  answer.
\<close>

theorem C6_validator_address_required:
  "(validator_address = None \<or> validator_address = Some [] \<or> validator_address = Some NULL_ADDRESS
      \<longrightarrow> ClefSigner_sign_message self account message (Some SIGN_DATA_FOR_VALIDATOR)
            validator_address
          = (Inl (ValueError
                   ''When using the intended validator type, a validator address is required.''),
             self))
   \<and> (validator_address = Some va \<and> va \<noteq> [] \<and> va \<noteq> NULL_ADDRESS
      \<longrightarrow> ClefSigner_sign_message self account message (Some SIGN_DATA_FOR_VALIDATOR)
            validator_address
          = (w3 self (requests self) ''account_signData''
               [PStr SIGN_DATA_FOR_VALIDATOR, PStr account, PList [PStr va, PBytes message]],
             self\<lparr>requests := requests self @
               [(''account_signData'',
                 [PStr SIGN_DATA_FOR_VALIDATOR, PStr account,
                  PList [PStr va, PBytes message]])]\<rparr>))"
  by (auto simp add: ClefSigner_sign_message_def
      select_content_type_member [OF content_types_member(1)]
      shape_data_def str_truth_def request_blocking_def)

theorem C6_validator_address_required_witness:
  "ClefSigner_sign_message example_clefsigner ''0xAccount'' ''hello''
        (Some ''data/validator'') None
     = (Inl (ValueError
              ''When using the intended validator type, a validator address is required.''),
        example_clefsigner)
   \<and> ClefSigner_sign_message example_clefsigner ''0xAccount'' ''hello''
        (Some ''data/validator'') (Some ''0x0000000000000000000000000000000000000000'')
     = (Inl (ValueError
              ''When using the intended validator type, a validator address is required.''),
        example_clefsigner)
   \<and> ClefSigner_sign_message example_clefsigner ''0xAccount'' ''hello''
        (Some ''data/validator'') (Some ''0xValidator'')
     = (Inr (PStr ''0xsignature''),
        example_clefsigner\<lparr>requests :=
          [(''account_signData'',
            [PStr ''data/validator'', PStr ''0xAccount'',
             PList [PStr ''0xValidator'', PBytes ''hello'']])]\<rparr>)"
  using C6_validator_address_required [where validator_address = None
      and self = example_clefsigner and account = "''0xAccount''" and message = "''hello''"]
    C6_validator_address_required [where validator_address = "Some NULL_ADDRESS"
      and self = example_clefsigner and account = "''0xAccount''" and message = "''hello''"]
    C6_validator_address_required [where validator_address = "Some ''0xValidator''"
      and va = "''0xValidator''" and self = example_clefsigner and account = "''0xAccount''"
      and message = "''hello''"]
  by (simp add: NULL_ADDRESS_value SIGN_DATA_FOR_VALIDATOR_def example_clefsigner_def
      ClefSigner_init_def example_daemon_def)

text \<open>
  Claim C7, as stated: with the clique content type, \<^verbatim>\<open>sign_message\<close> sends the sign-data
  request. It raises NotImplementedError and sends nothing.
\<close>

theorem C7_clique_not_implemented:
  "ClefSigner_sign_message example_clefsigner ''0xAccount'' ''hello''
        (Some ''application/clique'') None
     = (Inl NotImplementedError, example_clefsigner)
   \<and> requests (snd (ClefSigner_sign_message example_clefsigner ''0xAccount'' ''hello''
        (Some ''application/clique'') None)) = []"
  by (simp add: ClefSigner_sign_message_def
      select_content_type_member [OF content_types_member(2), unfolded SIGN_DATA_FOR_CLIQUE_def]
      shape_data_def SIGN_DATA_FOR_VALIDATOR_def SIGN_DATA_FOR_ECRECOVER_def
      example_clefsigner_def ClefSigner_init_def)

text \<open>
  Claim C7, amended: the clique content type is a member of the valid content types and
  passes the content-type validation (no ValueError); the data shaping that follows has no
  branch for it, so \<^verbatim>\<open>sign_message\<close> fails with NotImplementedError, whatever the validator
  address, and sends no request.
\<close>

theorem C7_clique_accepted_then_refused:
  "SIGN_DATA_FOR_CLIQUE \<in> set SIGN_DATA_CONTENT_TYPES
   \<and> select_content_type (Some SIGN_DATA_FOR_CLIQUE) = Inr SIGN_DATA_FOR_CLIQUE
   \<and> ClefSigner_sign_message self account message (Some SIGN_DATA_FOR_CLIQUE) validator_address
       = (Inl NotImplementedError, self)"
  by (simp add: ClefSigner_sign_message_def content_types_member
      select_content_type_member [OF content_types_member(2)]
      shape_data_def content_types_distinct)

theorem C7_clique_accepted_then_refused_witness:
  "ClefSigner_sign_message example_clefsigner ''0xAccount'' ''hello''
        (Some ''application/clique'') (Some ''0xValidator'')
     = (Inl NotImplementedError, example_clefsigner)"
  using C7_clique_accepted_then_refused [where self = example_clefsigner
      and account = "''0xAccount''" and message = "''hello''"
      and validator_address = "Some ''0xValidator''"]
  by (simp add: SIGN_DATA_FOR_CLIQUE_def)

text \<open>
  Claim C8, as stated: a content type outside the recognised set fails with ValueError. The
  empty string is outside the set, and is treated as no content type: the message is signed
  as plain text.
\<close>

theorem C8_empty_content_type_defaults:
  "[] \<notin> set SIGN_DATA_CONTENT_TYPES
   \<and> ClefSigner_sign_message example_clefsigner ''0xAccount'' ''hello'' (Some []) None
       = (Inr (PStr ''0xsignature''),
          example_clefsigner\<lparr>requests :=
            [(''account_signData'', [PStr ''text/plain'', PStr ''0xAccount'', PBytes ''hello''])]\<rparr>)"
  by (simp add: ClefSigner_sign_message_def select_content_type_empty shape_data_def
      SIGN_DATA_CONTENT_TYPES_def
      SIGN_DATA_FOR_ECRECOVER_def SIGN_DATA_FOR_VALIDATOR_def SIGN_DATA_FOR_CLIQUE_def
      request_blocking_def example_clefsigner_def ClefSigner_init_def example_daemon_def)

text \<open>
  Claim C8, amended: with no content type (\<^verbatim>\<open>None\<close>, or the empty string, which is
  treated alike), \<^verbatim>\<open>sign_message\<close> sends one
  \<^verbatim>\<open>account_signData\<close> request with the plain-text content type and the message bytes as
  data; with a non-empty content type outside the three valid ones it fails with a ValueError
  whose message lists the valid types, whatever the validator address, and sends nothing.
\<close>

theorem C8_default_and_unknown_content_type:
  "ClefSigner_sign_message self account message None validator_address
     = (w3 self (requests self) ''account_signData''
          [PStr SIGN_DATA_FOR_ECRECOVER, PStr account, PBytes message],
        self\<lparr>requests := requests self @
          [(''account_signData'',
            [PStr SIGN_DATA_FOR_ECRECOVER, PStr account, PBytes message])]\<rparr>)
   \<and> ClefSigner_sign_message self account message (Some []) validator_address
     = ClefSigner_sign_message self account message None validator_address
   \<and> (ct \<noteq> [] \<and> ct \<notin> set SIGN_DATA_CONTENT_TYPES
      \<longrightarrow> ClefSigner_sign_message self account message (Some ct) validator_address
          = (Inl (ValueError (ct @ '' is not a valid content type. '' @ ''Valid types are ''
                               @ repr_tuple SIGN_DATA_CONTENT_TYPES)),
             self))"
  by (simp add: ClefSigner_sign_message_def select_content_type_None select_content_type_empty
      select_content_type_unknown shape_data_def content_types_distinct request_blocking_def)

theorem C8_default_and_unknown_content_type_witness:
  "ClefSigner_sign_message example_clefsigner ''0xAccount'' ''hello'' None None
     = (Inr (PStr ''0xsignature''),
        example_clefsigner\<lparr>requests :=
          [(''account_signData'', [PStr ''text/plain'', PStr ''0xAccount'', PBytes ''hello''])]\<rparr>)
   \<and> ClefSigner_sign_message example_clefsigner ''0xAccount'' ''hello''
        (Some ''application/json'') None
     = (Inl (ValueError (''application/json is not a valid content type. Valid types are (''
                @ [CHR 0x27] @ ''data/validator'' @ [CHR 0x27] @ '', ''
                @ [CHR 0x27] @ ''application/clique'' @ [CHR 0x27] @ '', ''
                @ [CHR 0x27] @ ''text/plain'' @ [CHR 0x27] @ '')'')),
        example_clefsigner)"
  using C8_default_and_unknown_content_type [where self = example_clefsigner
      and account = "''0xAccount''" and message = "''hello''" and validator_address = None
      and ct = "''application/json''"]
  by (simp add: SIGN_DATA_FOR_ECRECOVER_def SIGN_DATA_CONTENT_TYPES_def
      SIGN_DATA_FOR_VALIDATOR_def SIGN_DATA_FOR_CLIQUE_def repr_tuple_def repr_str_def
      example_clefsigner_def ClefSigner_init_def example_daemon_def)

section \<open>The local keyfile\<close>

text \<open>
  Claim C9: \<^verbatim>\<open>unlock_account\<close> of the local-keyfile backend, on a missing keyfile, raises
  FileNotFoundError; on a keyfile that the library fails to decrypt with the password, it
  raises the library's exception as it is; and whenever it raises, the signer is exactly as
  before the call, so \<^verbatim>\<open>is_unlocked\<close> and the stored key are what they were: false and
  \<^verbatim>\<open>None\<close> on a signer that was locked.
\<close>

theorem C9_failed_unlock_propagates_error:
  "(files env (LocalSigner__keyfile self) = None
      \<longrightarrow> LocalSigner_unlock_account env self account password duration
          = (Inl (FileNotFoundError (LocalSigner__keyfile self)), self))
   \<and> (files env (LocalSigner__keyfile self) = Some encrypted_key
       \<and> decrypt env encrypted_key password = Inl e
      \<longrightarrow> LocalSigner_unlock_account env self account password duration = (Inl e, self))
   \<and> (isl (fst (LocalSigner_unlock_account env self account password duration))
      \<longrightarrow> snd (LocalSigner_unlock_account env self account password duration) = self
          \<and> is_unlocked (snd (LocalSigner_unlock_account env self account password duration))
              = is_unlocked self
          \<and> LocalSigner__key (snd (LocalSigner_unlock_account env self account password
                                      duration))
              = LocalSigner__key self)"
  by (simp add: LocalSigner_unlock_account_def import_keyfile_def
      split: option.splits sum.splits)

theorem C9_failed_unlock_propagates_error_witness:
  "LocalSigner_unlock_account example_env (LocalSigner_init ''/keys/missing.json'')
       ''0xAccount'' ''secret'' None
     = (Inl (FileNotFoundError ''/keys/missing.json''), LocalSigner_init ''/keys/missing.json'')
   \<and> LocalSigner_unlock_account example_env example_localsigner ''0xAccount'' ''wrong'' None
     = (Inl (ValueError ''MAC mismatch''), example_localsigner)
   \<and> is_unlocked example_localsigner = False
   \<and> LocalSigner__key example_localsigner = PNone"
  using C9_failed_unlock_propagates_error [where env = example_env
      and self = "LocalSigner_init ''/keys/missing.json''" and account = "''0xAccount''"
      and password = "''secret''" and duration = None]
    C9_failed_unlock_propagates_error [where env = example_env
      and self = example_localsigner and account = "''0xAccount''"
      and password = "''wrong''" and duration = None
      and encrypted_key = "''encrypted keystore''" and e = "ValueError ''MAC mismatch''"]
  by (simp add: example_env_def example_localsigner_def LocalSigner_init_def
      example_decrypt_def is_unlocked_def Signer_init_def)

text \<open>
  Claim C10, as stated: the result of \<^verbatim>\<open>sign_transaction\<close> of the local-keyfile backend does
  not depend on the account argument. On a locked signer the AccountLocked message holds
  the account, so two accounts give two results.
\<close>

theorem C10_locked_message_names_account:
  "LocalSigner_sign_transaction example_env example_localsigner ''0xAlice'' example_transaction
     = (Inl (AccountLocked ''Failed to unlock account 0xAlice''), example_localsigner)
   \<and> LocalSigner_sign_transaction example_env example_localsigner ''0xBob'' example_transaction
     = (Inl (AccountLocked ''Failed to unlock account 0xBob''), example_localsigner)
   \<and> LocalSigner_sign_transaction example_env example_localsigner ''0xAlice'' example_transaction
     \<noteq> LocalSigner_sign_transaction example_env example_localsigner ''0xBob'' example_transaction"
  by (simp add: LocalSigner_sign_transaction_def is_unlocked_def example_localsigner_def
      LocalSigner_init_def Signer_init_def)

text \<open>
  Claim C10, amended: \<^verbatim>\<open>unlock_account\<close> of the local-keyfile backend gives the same result
  and the same signer state for any two account arguments; \<^verbatim>\<open>sign_transaction\<close> gives the
  same result for any two accounts when \<^verbatim>\<open>is_unlocked\<close> is true, and when it is false the
  account appears in the text of the AccountLocked message and nowhere else. The account is
  never compared with the key.
\<close>

theorem C10_account_argument_unused:
  "LocalSigner_unlock_account env self a1 password duration
     = LocalSigner_unlock_account env self a2 password duration
   \<and> (is_unlocked self
      \<longrightarrow> LocalSigner_sign_transaction env self a1 transaction
          = LocalSigner_sign_transaction env self a2 transaction)
   \<and> (\<not> is_unlocked self
      \<longrightarrow> LocalSigner_sign_transaction env self a1 transaction
          = (Inl (AccountLocked (''Failed to unlock account '' @ a1)), self))"
  by (simp add: LocalSigner_unlock_account_def LocalSigner_sign_transaction_def)

theorem C10_account_argument_unused_witness:
  "LocalSigner_unlock_account example_env example_localsigner ''0xAlice'' ''secret'' None
     = LocalSigner_unlock_account example_env example_localsigner ''0xBob'' ''secret'' None
   \<and> is_unlocked (example_localsigner\<lparr>Signer__unlocked := True,
                     LocalSigner__key := PBytes ''private key''\<rparr>)
   \<and> LocalSigner_sign_transaction example_env
        (example_localsigner\<lparr>Signer__unlocked := True, LocalSigner__key := PBytes ''private key''\<rparr>)
        ''0xAlice'' example_transaction
     = LocalSigner_sign_transaction example_env
        (example_localsigner\<lparr>Signer__unlocked := True, LocalSigner__key := PBytes ''private key''\<rparr>)
        ''0xBob'' example_transaction
   \<and> LocalSigner_sign_transaction example_env example_localsigner ''0xAlice'' example_transaction
     = (Inl (AccountLocked ''Failed to unlock account 0xAlice''), example_localsigner)"
  using C10_account_argument_unused [where env = example_env and self = example_localsigner
      and ?a1.0 = "''0xAlice''" and ?a2.0 = "''0xBob''" and password = "''secret''"
      and duration = None and transaction = example_transaction]
    C10_account_argument_unused [where env = example_env
      and self = "example_localsigner\<lparr>Signer__unlocked := True,
                    LocalSigner__key := PBytes ''private key''\<rparr>"
      and ?a1.0 = "''0xAlice''" and ?a2.0 = "''0xBob''" and password = "''secret''"
      and duration = None and transaction = example_transaction]
  by (simp add: is_unlocked_def example_localsigner_def LocalSigner_init_def Signer_init_def)

end
